theory Spec2Isabelle
  imports Main
begin

section \<open>Python strings\<close>

text \<open>
  A Python \<open>str\<close> is a sequence of Unicode code points. The corpus holds hieroglyphs and
  transliteration signs far outside Latin-1, and \<open>" ".join(text)\<close> separates code points,
  so a string is modelled as a list of code points, not of bytes.
\<close>

type_synonym pystr = "nat list"

definition str :: "string \<Rightarrow> pystr" where
  \<comment> \<open>an ASCII literal of the source as a Python string\<close>
  "str s = map of_char s"

definition isspace :: "nat \<Rightarrow> bool" where
  \<comment> \<open>the code points that \<open>str.strip()\<close> without argument removes\<close>
  "isspace c \<longleftrightarrow>
     (9 \<le> c \<and> c \<le> 13) \<or> (28 \<le> c \<and> c \<le> 32) \<or> c = 133 \<or> c = 160 \<or> c = 5760 \<or>
     (8192 \<le> c \<and> c \<le> 8202) \<or> c = 8232 \<or> c = 8233 \<or> c = 8239 \<or> c = 8287 \<or> c = 12288"

definition strip :: "pystr \<Rightarrow> pystr" where
  \<comment> \<open>\<open>text.strip()\<close>\<close>
  "strip t = rev (dropWhile isspace (rev (dropWhile isspace t)))"

definition replace :: "pystr \<Rightarrow> nat \<Rightarrow> pystr \<Rightarrow> pystr" where
  \<comment> \<open>\<open>text.replace(old, new)\<close> for a pattern \<open>old\<close> of one character, the only use in the source\<close>
  "replace t old new = concat (map (\<lambda>c. if c = old then new else [c]) t)"

fun join :: "pystr \<Rightarrow> pystr list \<Rightarrow> pystr" where
  \<comment> \<open>\<open>sep.join(items)\<close>\<close>
  "join sep [] = []"
| "join sep [x] = x"
| "join sep (x # y # ys) = x @ sep @ join sep (y # ys)"

definition chars :: "pystr \<Rightarrow> pystr list" where
  \<comment> \<open>iterating over a \<open>str\<close> yields its characters, each a \<open>str\<close> of length one\<close>
  "chars t = map (\<lambda>c. [c]) t"

abbreviation SPACE :: nat where "SPACE \<equiv> 32"
abbreviation UNDERSCORE :: nat where "UNDERSCORE \<equiv> 95"
abbreviation NEWLINE :: nat where "NEWLINE \<equiv> 10"

section \<open>Formatter and unformatter\<close>

definition format_egy :: "pystr \<Rightarrow> pystr" where
  "format_egy text = strip text"

definition format_tnt :: "pystr \<Rightarrow> pystr" where
  "format_tnt text = join [SPACE] (chars (replace (strip text) SPACE [UNDERSCORE]))"

definition format_text :: "pystr \<Rightarrow> pystr \<Rightarrow> pystr" where
  "format_text text lang_type =
     (if lang_type = str ''egy'' then format_egy text
      else if lang_type = str ''tnt'' then format_tnt text
      else strip text)"

definition unformat_egy :: "pystr \<Rightarrow> pystr" where
  "unformat_egy text = strip text"

definition unformat_tnt :: "pystr \<Rightarrow> pystr" where
  "unformat_tnt text = strip (replace (replace (strip text) SPACE []) UNDERSCORE [SPACE])"

definition unformat_text :: "pystr \<Rightarrow> pystr \<Rightarrow> pystr" where
  "unformat_text text lang_type =
     (if lang_type = str ''egy'' then unformat_egy text
      else if lang_type = str ''tnt'' then unformat_tnt text
      else strip text)"

definition trimmed :: "pystr \<Rightarrow> bool" where
  \<comment> \<open>no white space at either end: what \<open>strip\<close> establishes\<close>
  "trimmed t \<longleftrightarrow> t = [] \<or> (\<not> isspace (hd t) \<and> \<not> isspace (last t))"

section \<open>Values, errors and the environment\<close>

text \<open>
  The values \<open>json.load\<close> produces: \<open>None\<close>, booleans, numbers, strings, lists and
  dictionaries. No path of the converters inspects a number, so a number is kept as its
  literal in the document. A dictionary is an association list read with \<open>map_of\<close>.
\<close>

datatype json =
    JNull
  | JBool bool
  | JNum pystr
  | JStr pystr
  | JArr "json list"
  | JObj "(pystr \<times> json) list"

type_synonym dict = "(pystr \<times> json) list"

type_synonym path = "pystr list"

text \<open>
  The exceptions of the two converters. Both \<open>ValueError\<close>s for an unknown type are the
  spec's \<open>UnknownFieldCode\<close>; the third \<open>ValueError\<close> is its \<open>LineCountMismatch\<close>.
  \<open>AttributeError\<close> is \<open>.get\<close> on a value that is no dictionary or \<open>.strip\<close> on a value
  that is no string; \<open>TypeError\<close> is iteration over a value that cannot be iterated.
  \<open>Raised\<close> stands for whatever a collaborator outside these files raises.
\<close>

datatype error =
    FileNotFoundError path
  | UnknownSourceType pystr
  | UnknownTargetType pystr
  | LineCountMismatch nat nat
  | AttributeError
  | TypeError
  | JSONDecodeError
  | Raised pystr

fun is_UnknownFieldCode :: "error \<Rightarrow> bool" where
  "is_UnknownFieldCode (UnknownSourceType c) = True"
| "is_UnknownFieldCode (UnknownTargetType c) = True"
| "is_UnknownFieldCode e = False"

fun is_LineCountMismatch :: "error \<Rightarrow> bool" where
  "is_LineCountMismatch (LineCountMismatch m n) = True"
| "is_LineCountMismatch e = False"

definition and_then :: "error + 'a \<Rightarrow> ('a \<Rightarrow> error + 'b) \<Rightarrow> error + 'b" where
  \<comment> \<open>sequencing: an exception of the first statement skips the rest\<close>
  "and_then m f = (case m of Inl e \<Rightarrow> Inl e | Inr x \<Rightarrow> f x)"

text \<open>
  The cleaners come from the module \<open>utils\<close> and the JSON reader and writer from the
  standard library; none of them is part of the converters. They are parameters: a cleaner
  may return any value or raise, and every theorem below holds for all of them unless it
  says otherwise.
\<close>

record env =
  clean_graphics :: "json \<Rightarrow> error + json"
  clean_wChar :: "json \<Rightarrow> error + json"
  clean_traduction :: "json \<Rightarrow> error + json"
  json_load :: "pystr \<Rightarrow> error + json"
  json_dump :: "json \<Rightarrow> pystr"

text \<open>
  The file system maps a path to the decoded text of the file there. A path is the list of
  its components: \<open>parent\<close> drops the last one and \<open>/\<close> appends one.
\<close>

type_synonym filesystem = "path \<Rightarrow> pystr option"

definition parent :: "path \<Rightarrow> path" where
  "parent p = butlast p"

definition joinpath :: "path \<Rightarrow> pystr \<Rightarrow> path" where
  "joinpath d name = d @ [name]"

definition get :: "dict \<Rightarrow> pystr \<Rightarrow> json" where
  \<comment> \<open>\<open>d.get(key)\<close>: \<open>None\<close> when the key is absent\<close>
  "get d key = (case map_of d key of None \<Rightarrow> JNull | Some v \<Rightarrow> v)"

definition get_default :: "dict \<Rightarrow> pystr \<Rightarrow> json \<Rightarrow> json" where
  \<comment> \<open>\<open>d.get(key, default)\<close>\<close>
  "get_default d key dflt = (case map_of d key of None \<Rightarrow> dflt | Some v \<Rightarrow> v)"

fun dict_set :: "dict \<Rightarrow> pystr \<Rightarrow> json \<Rightarrow> dict" where
  \<comment> \<open>\<open>d[key] = v\<close>: an existing key keeps its place, a new one goes last\<close>
  "dict_set [] key v = [(key, v)]"
| "dict_set ((k, w) # d) key v = (if k = key then (k, v) # d else (k, w) # dict_set d key v)"

definition getattr_get :: "json \<Rightarrow> pystr \<Rightarrow> error + json" where
  \<comment> \<open>\<open>x.get(key)\<close> on any value: only a dictionary has the method\<close>
  "getattr_get x key = (case x of JObj d \<Rightarrow> Inr (get d key) | _ \<Rightarrow> Inl AttributeError)"

definition on_str :: "(pystr \<Rightarrow> pystr) \<Rightarrow> json \<Rightarrow> error + pystr" where
  \<comment> \<open>a function whose first step is \<open>text.strip()\<close>, called on any value: only a string has the method\<close>
  "on_str f x = (case x of JStr t \<Rightarrow> Inr (f t) | _ \<Rightarrow> Inl AttributeError)"

definition iterate :: "json \<Rightarrow> error + json list" where
  \<comment> \<open>\<open>for entry in data\<close>: a list yields its items, a dictionary its keys, a string its characters\<close>
  "iterate data =
     (case data of
        JArr xs \<Rightarrow> Inr xs
      | JObj d \<Rightarrow> Inr (map JStr (remdups (map fst d)))
      | JStr t \<Rightarrow> Inr (map JStr (chars t))
      | _ \<Rightarrow> Inl TypeError)"

section \<open>JSON to text: \<open>clean_convert2txt.py\<close>\<close>

definition FIELD_MAPPING :: "(pystr \<times> pystr) list" where
  "FIELD_MAPPING =
     [(str ''egy'', str ''source''),
      (str ''tnt'', str ''transliteration''),
      (str ''en'', str ''target''),
      (str ''de'', str ''target''),
      (str ''lkey'', str ''lKey''),
      (str ''worldClass'', str ''wordClass'')]"

definition LANG_FILTER_MAPPING :: "(pystr \<times> pystr) list" where
  "LANG_FILTER_MAPPING = [(str ''en'', str ''en''), (str ''de'', str ''de'')]"

definition CLEAN_FUNCTION_MAPPING :: "env \<Rightarrow> (pystr \<times> (json \<Rightarrow> error + json)) list" where
  "CLEAN_FUNCTION_MAPPING env =
     [(str ''egy'', clean_graphics env),
      (str ''tnt'', clean_wChar env),
      (str ''en'', clean_traduction env),
      (str ''de'', clean_traduction env)]"

definition clean_text :: "env \<Rightarrow> json \<Rightarrow> pystr \<Rightarrow> error + json" where
  "clean_text env text lang_type =
     (case map_of (CLEAN_FUNCTION_MAPPING env) lang_type of
        Some clean_func \<Rightarrow> clean_func text
      | None \<Rightarrow> Inr text)"

definition target_lang_of :: "dict \<Rightarrow> error + json" where
  \<comment> \<open>\<open>entry.get("metadata", {}).get("target_lang")\<close>\<close>
  "target_lang_of entry =
     getattr_get (get_default entry (str ''metadata'') (JObj [])) (str ''target_lang'')"

text \<open>
  The body of the loop over the records, for one record: \<open>None\<close> is
  \<open>skipped += 1; continue\<close>, \<open>Some\<close> holds the two lines that the body appends.
\<close>

definition process_entry ::
  "env \<Rightarrow> pystr \<Rightarrow> pystr \<Rightarrow> pystr \<Rightarrow> pystr \<Rightarrow> json \<Rightarrow> error + (pystr \<times> pystr) option" where
  "process_entry env source target source_field target_field entry =
     and_then (getattr_get entry source_field) (\<lambda>source_text.
     and_then (getattr_get entry target_field) (\<lambda>target_text.
       if source_text = JNull \<or> target_text = JNull then Inr None
       else if source_text = JStr [] \<or> target_text = JStr [] then Inr None
       else
         and_then
           (case map_of LANG_FILTER_MAPPING target of
              None \<Rightarrow> Inr False
            | Some tag \<Rightarrow>
                (case entry of
                   JObj e \<Rightarrow> and_then (target_lang_of e) (\<lambda>target_lang. Inr (target_lang \<noteq> JStr tag))
                 | _ \<Rightarrow> Inl AttributeError))
           (\<lambda>filtered_out.
         if filtered_out then Inr None
         else
           and_then (clean_text env source_text source) (\<lambda>source_cleaned.
           and_then (clean_text env target_text target) (\<lambda>target_cleaned.
             if source_cleaned = JStr [] \<or> target_cleaned = JStr [] then Inr None
             else
               and_then (on_str (\<lambda>t. format_text t source) source_cleaned) (\<lambda>source_formatted.
               and_then (on_str (\<lambda>t. format_text t target) target_cleaned) (\<lambda>target_formatted.
                 if source_formatted = [] \<or> target_formatted = [] then Inr None
                 else Inr (Some (source_formatted, target_formatted)))))))))"

type_synonym loop_state = "pystr list \<times> pystr list \<times> nat"

fun record_outcome :: "loop_state \<Rightarrow> (pystr \<times> pystr) option \<Rightarrow> loop_state" where
  "record_outcome (source_lines, target_lines, skipped) None =
     (source_lines, target_lines, skipped + 1)"
| "record_outcome (source_lines, target_lines, skipped) (Some (source_formatted, target_formatted)) =
     (source_lines @ [source_formatted], target_lines @ [target_formatted], skipped)"

fun run_loop ::
  "env \<Rightarrow> pystr \<Rightarrow> pystr \<Rightarrow> pystr \<Rightarrow> pystr \<Rightarrow> json list \<Rightarrow> loop_state \<Rightarrow> error + loop_state" where
  "run_loop env source target source_field target_field [] st = Inr st"
| "run_loop env source target source_field target_field (entry # rest) st =
     and_then (process_entry env source target source_field target_field entry) (\<lambda>outcome.
       run_loop env source target source_field target_field rest (record_outcome st outcome))"

record stats =
  total_entries :: nat
  processed_entries :: nat
  skipped_entries :: nat

definition convert_records ::
  "env \<Rightarrow> pystr \<Rightarrow> pystr \<Rightarrow> pystr \<Rightarrow> pystr \<Rightarrow> json
     \<Rightarrow> error + (pystr list \<times> pystr list \<times> stats)" where
  \<comment> \<open>the loop over \<open>data\<close> and the statistics: what the function computes between reading and writing\<close>
  "convert_records env source target source_field target_field data =
     and_then (iterate data) (\<lambda>entries.
     and_then (run_loop env source target source_field target_field entries ([], [], 0))
       (\<lambda>(source_lines, target_lines, skipped).
          Inr (source_lines, target_lines,
               \<lparr>total_entries = length entries,
                processed_entries = length source_lines,
                skipped_entries = skipped\<rparr>)))"

definition convert_json_to_txt ::
  "env \<Rightarrow> filesystem \<Rightarrow> path \<Rightarrow> pystr \<Rightarrow> pystr
     \<Rightarrow> (error + (path \<times> path \<times> stats)) \<times> filesystem" where
  "convert_json_to_txt env fs json_path source target =
     (case fs json_path of
        None \<Rightarrow> (Inl (FileNotFoundError json_path), fs)
      | Some content \<Rightarrow>
     (case map_of FIELD_MAPPING source of
        None \<Rightarrow> (Inl (UnknownSourceType source), fs)
      | Some source_field \<Rightarrow>
     if source_field = [] then (Inl (UnknownSourceType source), fs) else
     (case map_of FIELD_MAPPING target of
        None \<Rightarrow> (Inl (UnknownTargetType target), fs)
      | Some target_field \<Rightarrow>
     if target_field = [] then (Inl (UnknownTargetType target), fs) else
     (case json_load env content of
        Inl e \<Rightarrow> (Inl e, fs)
      | Inr data \<Rightarrow>
     (case convert_records env source target source_field target_field data of
        Inl e \<Rightarrow> (Inl e, fs)
      | Inr (source_lines, target_lines, st) \<Rightarrow>
          let output_dir = parent json_path;
              source_filename = str ''source_'' @ source @ str ''2'' @ target @ str ''_cleaned.txt'';
              target_filename = str ''target_'' @ source @ str ''2'' @ target @ str ''_cleaned.txt'';
              source_path = joinpath output_dir source_filename;
              target_path = joinpath output_dir target_filename;
              fs1 = fs(source_path \<mapsto> join [NEWLINE] source_lines);
              fs2 = fs1(target_path \<mapsto> join [NEWLINE] target_lines)
          in (Inr (source_path, target_path, st), fs2))))))"

section \<open>Text to JSON: \<open>txt2json.py\<close>\<close>

text \<open>
  \<open>txt2json.py\<close> declares the same table \<open>FIELD_MAPPING\<close> again, entry for entry.

  Reading a text file: the default text mode turns \<open>\r\n\<close> and \<open>\r\<close> into \<open>\n\<close>;
  iterating over the file yields its lines, each with its final \<open>\n\<close> when it has one.
\<close>

abbreviation CR :: nat where "CR \<equiv> 13"

fun universal_newlines :: "pystr \<Rightarrow> pystr" where
  "universal_newlines [] = []"
| "universal_newlines [c] = (if c = CR then [NEWLINE] else [c])"
| "universal_newlines (c # d # cs) =
     (if c = CR \<and> d = NEWLINE then NEWLINE # universal_newlines cs
      else if c = CR then NEWLINE # universal_newlines (d # cs)
      else c # universal_newlines (d # cs))"

fun file_lines :: "pystr \<Rightarrow> pystr list" where
  "file_lines [] = []"
| "file_lines (c # cs) =
     (if c = NEWLINE then [NEWLINE] # file_lines cs
      else (case file_lines cs of [] \<Rightarrow> [[c]] | l # ls \<Rightarrow> (c # l) # ls))"

definition rstrip_newline :: "pystr \<Rightarrow> pystr" where
  \<comment> \<open>\<open>line.rstrip('\n')\<close>\<close>
  "rstrip_newline line = rev (dropWhile (\<lambda>c. c = NEWLINE) (rev line))"

definition read_lines :: "pystr \<Rightarrow> pystr list" where
  \<comment> \<open>\<open>[line.rstrip('\n') for line in f]\<close> on a file with this content\<close>
  "read_lines content = map rstrip_newline (file_lines (universal_newlines content))"

definition empty_metadata :: dict where
  "empty_metadata =
     [(str ''source_lang'', JStr []),
      (str ''target_lang'', JStr []),
      (str ''id_datapoint'', JStr []),
      (str ''id_sentence'', JStr []),
      (str ''language'', JStr []),
      (str ''date'', JStr []),
      (str ''script'', JStr []),
      (str ''id_tree'', JStr [])]"

definition empty_entry :: dict where
  \<comment> \<open>the dictionary literal every record starts from\<close>
  "empty_entry =
     [(str ''source'', JStr []),
      (str ''transliteration'', JStr []),
      (str ''target'', JStr []),
      (str ''lKey'', JStr []),
      (str ''wordClass'', JStr []),
      (str ''flexCode'', JStr []),
      (str ''metadata'', JObj empty_metadata)]"

definition build_entry ::
  "pystr \<Rightarrow> pystr \<Rightarrow> pystr \<Rightarrow> pystr \<Rightarrow> pystr \<times> pystr \<Rightarrow> dict" where
  \<comment> \<open>the body of the loop over the line pairs\<close>
  "build_entry source_type target_type source_field target_field pair =
     (case pair of (source_line, target_line) \<Rightarrow>
        let source_unformatted = unformat_text source_line source_type;
            target_unformatted = unformat_text target_line target_type;
            entry = empty_entry;
            entry = dict_set entry source_field (JStr source_unformatted);
            entry = dict_set entry target_field (JStr target_unformatted)
        in entry)"

definition build_data ::
  "pystr \<Rightarrow> pystr \<Rightarrow> pystr \<Rightarrow> pystr \<Rightarrow> pystr list \<Rightarrow> pystr list \<Rightarrow> json list" where
  "build_data source_type target_type source_field target_field source_lines target_lines =
     map (\<lambda>pair. JObj (build_entry source_type target_type source_field target_field pair))
       (zip source_lines target_lines)"

definition convert_txt_to_json ::
  "env \<Rightarrow> filesystem \<Rightarrow> path \<Rightarrow> path \<Rightarrow> pystr \<Rightarrow> pystr \<Rightarrow> path
     \<Rightarrow> (error + path) \<times> filesystem" where
  "convert_txt_to_json env fs source_path target_path source_type target_type output_path =
     (case fs source_path of
        None \<Rightarrow> (Inl (FileNotFoundError source_path), fs)
      | Some source_content \<Rightarrow>
     (case fs target_path of
        None \<Rightarrow> (Inl (FileNotFoundError target_path), fs)
      | Some target_content \<Rightarrow>
     (case map_of FIELD_MAPPING source_type of
        None \<Rightarrow> (Inl (UnknownSourceType source_type), fs)
      | Some source_field \<Rightarrow>
     if source_field = [] then (Inl (UnknownSourceType source_type), fs) else
     (case map_of FIELD_MAPPING target_type of
        None \<Rightarrow> (Inl (UnknownTargetType target_type), fs)
      | Some target_field \<Rightarrow>
     if target_field = [] then (Inl (UnknownTargetType target_type), fs) else
       let source_lines = read_lines source_content;
           target_lines = read_lines target_content
       in
         if length source_lines \<noteq> length target_lines
         then (Inl (LineCountMismatch (length source_lines) (length target_lines)), fs)
         else
           let data = build_data source_type target_type source_field target_field
                        source_lines target_lines
           in (Inr output_path, fs(output_path \<mapsto> json_dump env (JArr data)))))))"

section \<open>Well-typed input\<close>

text \<open>
  The data model gives a Record string values and a nested metadata mapping, and a cleaner
  the signature string to string. On such input the loop raises nothing; the predicates
  below say what the loop needs of it.
\<close>

definition str_or_none :: "json \<Rightarrow> bool" where
  "str_or_none v = (case v of JNull \<Rightarrow> True | JStr t \<Rightarrow> True | _ \<Rightarrow> False)"

definition well_formed_record :: "pystr \<Rightarrow> pystr \<Rightarrow> json \<Rightarrow> bool" where
  "well_formed_record source_field target_field entry =
     (case entry of
        JObj e \<Rightarrow>
          str_or_none (get e source_field) \<and> str_or_none (get e target_field) \<and>
          (case get_default e (str ''metadata'') (JObj []) of JObj m \<Rightarrow> True | _ \<Rightarrow> False)
      | _ \<Rightarrow> False)"

definition returns_str :: "(json \<Rightarrow> error + json) \<Rightarrow> bool" where
  "returns_str clean \<longleftrightarrow> (\<forall>t. \<exists>t'. clean (JStr t) = Inr (JStr t'))"

definition well_behaved_cleaners :: "env \<Rightarrow> bool" where
  "well_behaved_cleaners env \<longleftrightarrow>
     returns_str (clean_graphics env) \<and> returns_str (clean_wChar env) \<and>
     returns_str (clean_traduction env)"

section \<open>The vocabulary of the specification\<close>

definition FIELD_CODES :: "pystr set" where
  \<comment> \<open>the closed enumeration of field codes\<close>
  "FIELD_CODES =
     {str ''egy'', str ''tnt'', str ''en'', str ''de'', str ''lkey'', str ''worldClass''}"

definition RECORD_KEYS :: "pystr list" where
  \<comment> \<open>the top-level keys of a Record in the data model of the specification\<close>
  "RECORD_KEYS =
     [str ''source'', str ''transliteration'', str ''target'', str ''lKey'', str ''wordClass'',
      str ''metadata'']"

section \<open>Sample inputs\<close>

text \<open>
  Concrete collaborators and files on which the converters are run below. The sample
  cleaners return their argument; the sample reader knows one document.
\<close>

definition sample_entry_en :: dict where
  "sample_entry_en =
     [(str ''source'', JStr (str ''A1 B2'')), (str ''transliteration'', JStr (str ''nfr'')),
      (str ''target'', JStr (str ''good'')),
      (str ''metadata'', JObj [(str ''target_lang'', JStr (str ''en''))])]"

definition sample_entry_fr :: dict where
  "sample_entry_fr =
     [(str ''source'', JStr (str ''A1'')), (str ''transliteration'', JStr []),
      (str ''target'', JStr (str ''bon'')),
      (str ''metadata'', JObj [(str ''target_lang'', JStr (str ''fr''))])]"

definition sample_entry_bare :: dict where
  \<comment> \<open>a record without the key \<open>metadata\<close>\<close>
  "sample_entry_bare =
     [(str ''source'', JStr (str ''D4'')), (str ''transliteration'', JStr (str ''jr'')),
      (str ''target'', JStr (str ''gut''))]"


definition sample_data :: json where
  "sample_data = JArr [JObj sample_entry_en, JObj sample_entry_fr, JObj sample_entry_bare]"

definition sample_env :: env where
  "sample_env =
     \<lparr>clean_graphics = Inr, clean_wChar = Inr, clean_traduction = Inr,
      json_load = (\<lambda>content. if content = str ''sample'' then Inr sample_data
                              else Inl JSONDecodeError),
      json_dump = (\<lambda>data. str ''dumped'')\<rparr>"

definition no_files :: filesystem where
  "no_files = Map.empty"

definition sample_files :: filesystem where
  "sample_files =
     [[str ''corpus'', str ''test.json''] \<mapsto> str ''sample'',
      [str ''corpus'', str ''two.txt''] \<mapsto> [97, SPACE, 98, NEWLINE, 99],
      [str ''corpus'', str ''two_more.txt''] \<mapsto> [120, NEWLINE, 121, NEWLINE],
      [str ''corpus'', str ''three.txt''] \<mapsto> [120, NEWLINE, 121, NEWLINE, 122]]"

section \<open>Properties of the string operations\<close>

lemma strip_trimmed_id:
  assumes "trimmed t"
  shows "strip t = t"
proof (cases "t = []")
  case True
  then show ?thesis by (simp add: strip_def)
next
  case False
  with assms have h: "\<not> isspace (hd t)" and l: "\<not> isspace (last t)"
    by (simp_all add: trimmed_def)
  from False h have "dropWhile isspace t = t"
    by (simp add: dropWhile_eq_self_iff)
  moreover from False l have "dropWhile isspace (rev t) = rev t"
    by (simp add: dropWhile_eq_self_iff hd_rev)
  ultimately show ?thesis by (simp add: strip_def)
qed

lemma trimmed_strip: "trimmed (strip t)"
proof (cases "strip t = []")
  case True
  then show ?thesis by (simp add: trimmed_def)
next
  case False
  define u where "u = dropWhile isspace t"
  define v where "v = dropWhile isspace (rev u)"
  have sv: "strip t = rev v" by (simp add: strip_def u_def v_def)
  with False have vne: "v \<noteq> []" by simp
  then have "\<not> isspace (hd v)" unfolding v_def by (rule hd_dropWhile)
  then have l: "\<not> isspace (last (strip t))" using vne by (simp add: sv last_rev)
  have "rev u = takeWhile isspace (rev u) @ v" by (simp add: v_def)
  then have "u = rev v @ rev (takeWhile isspace (rev u))"
    by (metis rev_append rev_rev_ident)
  then have "hd u = hd (rev v)" using vne by (metis hd_append2 rev_is_Nil_conv)
  moreover have "u \<noteq> []" using vne v_def by auto
  then have "\<not> isspace (hd u)" unfolding u_def by (rule hd_dropWhile)
  ultimately have "\<not> isspace (hd (strip t))" by (simp add: sv)
  with l show ?thesis by (simp add: trimmed_def)
qed

lemma strip_idem: "strip (strip t) = strip t"
  by (rule strip_trimmed_id) (rule trimmed_strip)

lemma set_strip: "set (strip t) \<subseteq> set t"
proof -
  have "set (strip t) \<subseteq> set (dropWhile isspace t)"
    unfolding strip_def using set_dropWhileD by fastforce
  also have "\<dots> \<subseteq> set t" using set_dropWhileD by fastforce
  finally show ?thesis .
qed

lemma replace_absent: "old \<notin> set t \<Longrightarrow> replace t old new = t"
  by (induction t) (simp_all add: replace_def)

lemma replace_join_chars:
  "sep \<notin> set t \<Longrightarrow> replace (join [sep] (chars t)) sep [] = t"
proof (induction t rule: induct_list012)
  case 1
  then show ?case by (simp add: replace_def chars_def)
next
  case (2 x)
  then show ?case by (simp add: replace_def chars_def)
next
  case (3 x y zs)
  then have "replace (join [sep] (chars (y # zs))) sep [] = y # zs" by simp
  with 3 show ?case by (simp add: replace_def chars_def)
qed

lemma join_chars_Nil: "join sep (chars t) = [] \<longleftrightarrow> t = []"
  by (induction t rule: induct_list012) (auto simp: chars_def)

lemma hd_join_chars: "t \<noteq> [] \<Longrightarrow> hd (join sep (chars t)) = hd t"
  by (induction t rule: induct_list012) (auto simp: chars_def)

lemma last_join_chars: "t \<noteq> [] \<Longrightarrow> last (join sep (chars t)) = last t"
proof (induction t rule: induct_list012)
  case (3 x y zs)
  have "join sep (chars (y # zs)) \<noteq> []" by (simp add: join_chars_Nil)
  with 3 show ?case by (simp add: chars_def)
qed (simp_all add: chars_def)

lemma trimmed_join_chars: "trimmed t \<Longrightarrow> trimmed (join sep (chars t))"
  by (auto simp: trimmed_def join_chars_Nil hd_join_chars last_join_chars)

lemma unformat_tnt_plain:
  assumes "SPACE \<notin> set x" and "UNDERSCORE \<notin> set x"
  shows "unformat_tnt x = strip x"
proof -
  from assms set_strip[of x] have "SPACE \<notin> set (strip x)" and "UNDERSCORE \<notin> set (strip x)"
    by auto
  then show ?thesis by (simp add: unformat_tnt_def replace_absent strip_idem)
qed

lemma unformat_format_tnt_plain:
  assumes "SPACE \<notin> set x" and "UNDERSCORE \<notin> set x"
  shows "unformat_tnt (format_tnt x) = strip x"
proof -
  define y where "y = strip x"
  from assms set_strip[of x] have sp: "SPACE \<notin> set y" and us: "UNDERSCORE \<notin> set y"
    by (auto simp: y_def)
  have ty: "trimmed y" by (simp add: y_def trimmed_strip)
  from sp have f: "format_tnt x = join [SPACE] (chars y)"
    by (simp add: format_tnt_def y_def replace_absent)
  have "strip (join [SPACE] (chars y)) = join [SPACE] (chars y)"
    using ty by (intro strip_trimmed_id trimmed_join_chars)
  moreover have "replace (join [SPACE] (chars y)) SPACE [] = y"
    using sp by (rule replace_join_chars)
  moreover have "replace y UNDERSCORE [SPACE] = y"
    using us by (rule replace_absent)
  moreover have "strip y = y" using ty by (rule strip_trimmed_id)
  ultimately show ?thesis by (simp add: unformat_tnt_def f y_def)
qed

section \<open>Claims about the formatter and unformatter\<close>

text \<open>
  C1. For every string \<open>x\<close> that contains neither an underscore nor the separator (a space),
  \<open>unformat_tnt (format_tnt x)\<close> is \<open>x\<close> trimmed, and
  \<open>unformat_tnt (format_tnt (unformat_tnt x))\<close> is \<open>unformat_tnt x\<close>.
\<close>

theorem tnt_round_trip:
  assumes "UNDERSCORE \<notin> set x" and "SPACE \<notin> set x"
  shows "unformat_tnt (format_tnt x) = strip x
       \<and> unformat_tnt (format_tnt (unformat_tnt x)) = unformat_tnt x"
proof -
  have u: "unformat_tnt x = strip x"
    using assms by (simp add: unformat_tnt_plain)
  from assms set_strip[of x] have "SPACE \<notin> set (strip x)" and "UNDERSCORE \<notin> set (strip x)"
    by auto
  then have "unformat_tnt (format_tnt (strip x)) = strip (strip x)"
    by (rule unformat_format_tnt_plain)
  with u assms show ?thesis
    by (simp add: unformat_format_tnt_plain strip_idem)
qed

theorem tnt_round_trip_witness:
  "UNDERSCORE \<notin> set [9, 110, 102, 114] \<and> SPACE \<notin> set [9, 110, 102, 114]
   \<and> unformat_tnt (format_tnt [9, 110, 102, 114]) = [110, 102, 114]
   \<and> unformat_tnt (format_tnt (unformat_tnt [9, 110, 102, 114])) = unformat_tnt [9, 110, 102, 114]"
  using tnt_round_trip [of "[9, 110, 102, 114]"]
  by (simp add: strip_def isspace_def)

text \<open>
  C8. \<open>format_egy\<close> and \<open>unformat_egy\<close> are idempotent on every string.
\<close>

theorem egy_idempotent:
  "format_egy (format_egy x) = format_egy x \<and> unformat_egy (unformat_egy x) = unformat_egy x"
  by (simp add: format_egy_def unformat_egy_def strip_idem)

theorem egy_idempotent_witness:
  "format_egy (format_egy (str '' A1 B2 '')) = format_egy (str '' A1 B2 '')
   \<and> unformat_egy (unformat_egy (str '' A1 B2 '')) = unformat_egy (str '' A1 B2 '')
   \<and> format_egy (str '' A1 B2 '') = str ''A1 B2''"
  using egy_idempotent [of "str '' A1 B2 ''"]
  by (simp add: format_egy_def strip_def isspace_def str_def)

section \<open>Evaluating the converters\<close>

lemmas string_defs = str_def strip_def isspace_def replace_def chars_def
  format_text_def format_egy_def format_tnt_def
  unformat_text_def unformat_egy_def unformat_tnt_def

lemmas record_defs = process_entry_def getattr_get_def get_def get_default_def and_then_def
  target_lang_of_def LANG_FILTER_MAPPING_def clean_text_def CLEAN_FUNCTION_MAPPING_def on_str_def

lemmas sample_defs = sample_env_def sample_data_def sample_entry_en_def sample_entry_fr_def
  sample_entry_bare_def sample_files_def no_files_def

lemma sample_records_run:
  "convert_records sample_env (str ''egy'') (str ''tnt'') (str ''source'') (str ''transliteration'')
     sample_data =
   Inr ([str ''A1 B2'', str ''D4''], [str ''n f r'', str ''j r''],
        \<lparr>total_entries = 3, processed_entries = 2, skipped_entries = 1\<rparr>)"
  by (simp add: convert_records_def iterate_def string_defs record_defs sample_defs)

lemma sample_conversion_run:
  "fst (convert_json_to_txt sample_env sample_files [str ''corpus'', str ''test.json'']
          (str ''egy'') (str ''en'')) =
   Inr ([str ''corpus'', str ''source_egy2en_cleaned.txt''],
        [str ''corpus'', str ''target_egy2en_cleaned.txt''],
        \<lparr>total_entries = 3, processed_entries = 1, skipped_entries = 2\<rparr>)"
  by (simp add: convert_json_to_txt_def convert_records_def iterate_def FIELD_MAPPING_def
        parent_def joinpath_def Let_def string_defs record_defs sample_defs)

section \<open>The field mapper\<close>

lemma FIELD_MAPPING_None: "map_of FIELD_MAPPING code = None \<longleftrightarrow> code \<notin> FIELD_CODES"
  by (simp add: FIELD_MAPPING_def FIELD_CODES_def)

lemma FIELD_MAPPING_Some:
  "map_of FIELD_MAPPING code = Some field \<Longrightarrow>
     field \<noteq> [] \<and> field \<in> fst ` set empty_entry \<and> field \<noteq> str ''flexCode''
     \<and> field \<noteq> str ''metadata''"
  by (auto simp: FIELD_MAPPING_def empty_entry_def str_def split: if_splits)

section \<open>The loop over the records\<close>

lemma record_outcome_lengths:
  "record_outcome (sls, tls, sk) r = (sls', tls', sk') \<Longrightarrow> length sls = length tls \<Longrightarrow>
     length sls' = length tls' \<and> length sls' + sk' = Suc (length sls + sk)"
  by (cases r) auto

lemma run_loop_lengths:
  "run_loop env source target sf tf entries (sls, tls, sk) = Inr (sls', tls', sk') \<Longrightarrow>
   length sls = length tls \<Longrightarrow>
   length sls' = length tls' \<and> length sls' + sk' = length sls + sk + length entries"
proof (induction entries arbitrary: sls tls sk)
  case Nil
  then show ?case by simp
next
  case (Cons entry rest)
  from Cons.prems(1) obtain r where
    r: "process_entry env source target sf tf entry = Inr r"
    and rest: "run_loop env source target sf tf rest (record_outcome (sls, tls, sk) r)
                 = Inr (sls', tls', sk')"
    by (auto simp: and_then_def split: sum.splits)
  obtain sls1 tls1 sk1 where st1: "record_outcome (sls, tls, sk) r = (sls1, tls1, sk1)"
    by (cases "record_outcome (sls, tls, sk) r") auto
  from record_outcome_lengths [OF st1 Cons.prems(2)]
  have a: "length sls1 = length tls1" and b: "length sls1 + sk1 = Suc (length sls + sk)"
    by auto
  from Cons.IH [OF rest [unfolded st1] a] b show ?case by simp
qed

lemma convert_records_stats:
  assumes "convert_records env source target sf tf data = Inr (source_lines, target_lines, st)"
  shows "length source_lines = length target_lines"
    and "processed_entries st = length source_lines"
    and "processed_entries st + skipped_entries st = total_entries st"
proof -
  from assms obtain entries sk where
    loop: "run_loop env source target sf tf entries ([], [], 0)
             = Inr (source_lines, target_lines, sk)"
    and st: "st = \<lparr>total_entries = length entries, processed_entries = length source_lines,
                   skipped_entries = sk\<rparr>"
    by (auto simp: convert_records_def and_then_def split: sum.splits prod.splits)
  from run_loop_lengths [OF loop] st
  show "length source_lines = length target_lines"
    and "processed_entries st = length source_lines"
    and "processed_entries st + skipped_entries st = total_entries st"
    by simp_all
qed

text \<open>
  A run that returns has resolved both codes, read the document, run the loop and written
  the two joined sequences, in this order.
\<close>

lemma convert_json_to_txt_writes:
  assumes "convert_json_to_txt env fs json_path source target
           = (Inr (source_path, target_path, st), fs')"
  shows "\<exists>content source_field target_field data source_lines target_lines.
           fs json_path = Some content
         \<and> map_of FIELD_MAPPING source = Some source_field
         \<and> map_of FIELD_MAPPING target = Some target_field
         \<and> json_load env content = Inr data
         \<and> convert_records env source target source_field target_field data
             = Inr (source_lines, target_lines, st)
         \<and> fs' = fs(source_path \<mapsto> join [NEWLINE] source_lines,
                     target_path \<mapsto> join [NEWLINE] target_lines)"
  using assms
  by (auto simp: convert_json_to_txt_def Let_def
           split: option.splits if_splits sum.splits prod.splits)

text \<open>On well-typed input the loop raises nothing, so the conversion returns.\<close>

lemma clean_text_str:
  assumes "well_behaved_cleaners env"
  shows "\<exists>t'. clean_text env (JStr t) lang_type = Inr (JStr t')"
  using assms
  by (auto simp: clean_text_def CLEAN_FUNCTION_MAPPING_def well_behaved_cleaners_def
        returns_str_def)

lemma process_entry_returns:
  assumes c: "well_behaved_cleaners env"
      and w: "well_formed_record source_field target_field entry"
  shows "\<exists>outcome. process_entry env source target source_field target_field entry = Inr outcome"
proof -
  from w obtain e where e: "entry = JObj e"
    and s: "str_or_none (get e source_field)" and t: "str_or_none (get e target_field)"
    and m: "\<exists>v. target_lang_of e = Inr v"
    by (auto simp: well_formed_record_def target_lang_of_def getattr_get_def
             split: json.splits)
  from m obtain v where v: "target_lang_of e = Inr v" ..
  show ?thesis
  proof (cases "get e source_field = JNull \<or> get e target_field = JNull
              \<or> get e source_field = JStr [] \<or> get e target_field = JStr []")
    case True
    then show ?thesis
      by (auto simp: process_entry_def e getattr_get_def and_then_def)
  next
    case False
    with s t obtain a b where a: "get e source_field = JStr a" and b: "get e target_field = JStr b"
      by (auto simp: str_or_none_def split: json.splits)
    from clean_text_str [OF c] obtain a' where a': "clean_text env (JStr a) source = Inr (JStr a')"
      by blast
    from clean_text_str [OF c] obtain b' where b': "clean_text env (JStr b) target = Inr (JStr b')"
      by blast
    from False a b have ne: "a \<noteq> []" "b \<noteq> []" by auto
    show ?thesis
      by (cases "map_of LANG_FILTER_MAPPING target")
         (simp_all add: process_entry_def e getattr_get_def and_then_def a b a' b' v ne on_str_def)
  qed
qed

lemma run_loop_returns:
  assumes "well_behaved_cleaners env"
      and "list_all (well_formed_record source_field target_field) entries"
  shows "\<exists>st'. run_loop env source target source_field target_field entries st = Inr st'"
  using assms(2)
proof (induction entries arbitrary: st)
  case Nil
  show ?case by (cases st) simp
next
  case (Cons entry rest)
  then have "well_formed_record source_field target_field entry" by simp
  from process_entry_returns [OF assms(1) this]
  obtain outcome where
    "process_entry env source target source_field target_field entry = Inr outcome" by blast
  with Cons show ?case by (simp add: and_then_def)
qed

lemma convert_records_returns:
  assumes "well_behaved_cleaners env"
      and "list_all (well_formed_record source_field target_field) entries"
  shows "\<exists>source_lines target_lines st.
           convert_records env source target source_field target_field (JArr entries)
           = Inr (source_lines, target_lines, st)"
proof -
  from run_loop_returns [OF assms] obtain st' where
    "run_loop env source target source_field target_field entries ([], [], 0) = Inr st'"
    by blast
  then show ?thesis
    by (cases st') (simp add: convert_records_def iterate_def and_then_def)
qed

lemma convert_json_to_txt_returns:
  assumes "fs json_path = Some content"
      and "json_load env content = Inr (JArr entries)"
      and "map_of FIELD_MAPPING source = Some source_field"
      and "map_of FIELD_MAPPING target = Some target_field"
      and "well_behaved_cleaners env"
      and "list_all (well_formed_record source_field target_field) entries"
  shows "\<exists>source_path target_path st.
           fst (convert_json_to_txt env fs json_path source target)
           = Inr (source_path, target_path, st)"
proof -
  from convert_records_returns [OF assms(5,6)] obtain source_lines target_lines st where
    "convert_records env source target source_field target_field (JArr entries)
       = Inr (source_lines, target_lines, st)"
    by blast
  moreover from assms(3,4) have "source_field \<noteq> []" "target_field \<noteq> []"
    by (simp_all add: FIELD_MAPPING_Some)
  ultimately show ?thesis
    using assms(1-4) by (simp add: convert_json_to_txt_def Let_def)
qed

section \<open>Claims about the conversion from JSON to text\<close>

text \<open>
  C2. Whenever the loop of \<open>convert_json_to_txt\<close> finishes, for any record list and any
  pair of codes (the valid pairs among them), \<open>source_lines\<close> and \<open>target_lines\<close> have the
  same length, and that length is \<open>processed_entries\<close> of the statistics. By
  \<open>convert_records_returns\<close> the loop does finish on every well-typed record list.
\<close>

theorem convert_records_aligned:
  assumes "convert_records env source target source_field target_field data
           = Inr (source_lines, target_lines, st)"
  shows "length source_lines = length target_lines
       \<and> processed_entries st = length source_lines"
  using convert_records_stats(1,2) [OF assms] by simp

theorem convert_records_aligned_witness:
  "convert_records sample_env (str ''egy'') (str ''tnt'') (str ''source'') (str ''transliteration'')
     sample_data =
   Inr ([str ''A1 B2'', str ''D4''], [str ''n f r'', str ''j r''],
        \<lparr>total_entries = 3, processed_entries = 2, skipped_entries = 1\<rparr>)
   \<and> length [str ''A1 B2'', str ''D4''] = length [str ''n f r'', str ''j r'']
   \<and> processed_entries \<lparr>total_entries = 3, processed_entries = 2, skipped_entries = 1\<rparr>
       = length [str ''A1 B2'', str ''D4'']"
  using convert_records_aligned [OF sample_records_run] sample_records_run by simp

text \<open>
  C3. The statistics that a run of \<open>convert_json_to_txt\<close> returns satisfy
  \<open>processed_entries + skipped_entries = total_entries\<close>.
\<close>

theorem convert_json_to_txt_conservation:
  assumes "fst (convert_json_to_txt env fs json_path source target)
           = Inr (source_path, target_path, st)"
  shows "processed_entries st + skipped_entries st = total_entries st"
proof -
  from assms obtain source_field target_field data source_lines target_lines where
    "convert_records env source target source_field target_field data
       = Inr (source_lines, target_lines, st)"
    by (auto simp: convert_json_to_txt_def Let_def
             split: option.splits if_splits sum.splits prod.splits)
  then show ?thesis by (rule convert_records_stats(3))
qed

theorem convert_json_to_txt_conservation_witness:
  "fst (convert_json_to_txt sample_env sample_files [str ''corpus'', str ''test.json'']
          (str ''egy'') (str ''en'')) =
   Inr ([str ''corpus'', str ''source_egy2en_cleaned.txt''],
        [str ''corpus'', str ''target_egy2en_cleaned.txt''],
        \<lparr>total_entries = 3, processed_entries = 1, skipped_entries = 2\<rparr>)
   \<and> processed_entries \<lparr>total_entries = 3, processed_entries = 1, skipped_entries = 2\<rparr>
       + skipped_entries \<lparr>total_entries = 3, processed_entries = 1, skipped_entries = 2\<rparr>
     = total_entries \<lparr>total_entries = 3, processed_entries = 1, skipped_entries = 2\<rparr>"
  using convert_json_to_txt_conservation [OF sample_conversion_run] sample_conversion_run
  by simp

text \<open>
  The lookup \<open>entry.get("metadata", {}).get("target_lang")\<close> yields a value exactly when
  the record has no key \<open>metadata\<close> or its metadata is a dictionary.
\<close>

lemma target_lang_of_Inr:
  "target_lang_of entry = Inr v \<longleftrightarrow>
     (map_of entry (str ''metadata'') = None \<and> v = JNull)
   \<or> (\<exists>metadata. map_of entry (str ''metadata'') = Some (JObj metadata)
          \<and> v = get metadata (str ''target_lang''))"
  by (cases "map_of entry (str ''metadata'')")
     (auto simp: target_lang_of_def getattr_get_def get_def get_default_def split: json.splits)




text \<open>
  C10. With target code \<open>en\<close> or \<open>de\<close>, a record without the key \<open>metadata\<close>, or whose
  metadata has no key \<open>target_lang\<close>, raises nothing: the loop body reports a skip.
\<close>

theorem missing_target_lang_skips:
  assumes "target = str ''en'' \<or> target = str ''de''"
      and "map_of entry (str ''metadata'') = None
         \<or> (\<exists>metadata. map_of entry (str ''metadata'') = Some (JObj metadata)
                \<and> map_of metadata (str ''target_lang'') = None)"
  shows "process_entry env source target source_field target_field (JObj entry) = Inr None
       \<and> run_loop env source target source_field target_field (JObj entry # rest)
            (source_lines, target_lines, skipped)
          = run_loop env source target source_field target_field rest
              (source_lines, target_lines, skipped + 1)"
proof -
  from assms(1) have "map_of LANG_FILTER_MAPPING target = Some target"
    by (auto simp: LANG_FILTER_MAPPING_def str_def)
  moreover from assms(2) have "target_lang_of entry = Inr JNull"
    by (auto simp: target_lang_of_def getattr_get_def get_def get_default_def)
  ultimately
  have "process_entry env source target source_field target_field (JObj entry) = Inr None"
    by (simp add: process_entry_def getattr_get_def and_then_def)
  then show ?thesis by (simp add: and_then_def)
qed

theorem missing_target_lang_skips_witness:
  "map_of sample_entry_bare (str ''metadata'') = None
   \<and> process_entry sample_env (str ''egy'') (str ''de'') (str ''source'') (str ''target'')
        (JObj sample_entry_bare) = Inr None
   \<and> run_loop sample_env (str ''egy'') (str ''de'') (str ''source'') (str ''target'')
        [JObj sample_entry_bare] ([], [], 0) = Inr ([], [], 1)"
proof -
  have a: "str ''de'' = str ''en'' \<or> str ''de'' = str ''de''" by simp
  have b: "map_of sample_entry_bare (str ''metadata'') = None"
    by (simp add: sample_entry_bare_def str_def)
  then have "map_of sample_entry_bare (str ''metadata'') = None
         \<or> (\<exists>metadata. map_of sample_entry_bare (str ''metadata'') = Some (JObj metadata)
                \<and> map_of metadata (str ''target_lang'') = None)" ..
  from missing_target_lang_skips [OF a this, of sample_env "str ''egy''" "str ''source''"
     "str ''target''" "[]" "[]" "[]" 0] b
  show ?thesis by (simp add: and_then_def)
qed

text \<open>
  C7. When the input file exists and the source code or the target code is outside the
  closed enumeration, \<open>convert_json_to_txt\<close> fails with the \<open>ValueError\<close> of an unknown
  type. The error and the unchanged file system are the same for every reader and every
  cleaner: nothing was parsed, no record was visited and no file was written. The
  existence of the input file is checked before the codes, so for a missing file the error
  is \<open>FileNotFoundError\<close> instead, whatever the codes are.
\<close>

theorem unknown_code_fails_fast:
  assumes "fs json_path = Some content"
      and "source \<notin> FIELD_CODES \<or> target \<notin> FIELD_CODES"
  shows "\<exists>e. is_UnknownFieldCode e
           \<and> (\<forall>env. convert_json_to_txt env fs json_path source target = (Inl e, fs))"
proof (cases "source \<in> FIELD_CODES")
  case False
  then have "map_of FIELD_MAPPING source = None" by (simp add: FIELD_MAPPING_None)
  with assms(1)
  have "\<forall>env. convert_json_to_txt env fs json_path source target
           = (Inl (UnknownSourceType source), fs)"
    by (simp add: convert_json_to_txt_def)
  then show ?thesis by (intro exI[of _ "UnknownSourceType source"]) simp
next
  case True
  then obtain source_field where s: "map_of FIELD_MAPPING source = Some source_field"
    using FIELD_MAPPING_None[of source] by auto
  then have ne: "source_field \<noteq> []" by (simp add: FIELD_MAPPING_Some)
  from True assms(2) have "map_of FIELD_MAPPING target = None"
    by (simp add: FIELD_MAPPING_None)
  with assms(1) s ne
  have "\<forall>env. convert_json_to_txt env fs json_path source target
           = (Inl (UnknownTargetType target), fs)"
    by (simp add: convert_json_to_txt_def)
  then show ?thesis by (intro exI[of _ "UnknownTargetType target"]) simp
qed

theorem unknown_code_fails_fast_witness:
  "sample_files [str ''corpus'', str ''test.json''] = Some (str ''sample'')
   \<and> str ''xx'' \<notin> FIELD_CODES
   \<and> (\<exists>e. is_UnknownFieldCode e
         \<and> (\<forall>env. convert_json_to_txt env sample_files [str ''corpus'', str ''test.json'']
                     (str ''xx'') (str ''tnt'') = (Inl e, sample_files)))"
proof -
  have a: "sample_files [str ''corpus'', str ''test.json''] = Some (str ''sample'')"
    by (simp add: sample_files_def str_def)
  have b: "str ''xx'' \<notin> FIELD_CODES" by (simp add: FIELD_CODES_def str_def)
  then have "str ''xx'' \<notin> FIELD_CODES \<or> str ''tnt'' \<notin> FIELD_CODES" ..
  from unknown_code_fails_fast
         [where fs = sample_files and json_path = "[str ''corpus'', str ''test.json'']", OF a this]
    a b
  show ?thesis by simp
qed

text \<open>
  Without the file, the unknown code \<open>xx\<close> is never looked at: the run ends in
  \<open>FileNotFoundError\<close>.
\<close>

theorem unknown_code_fails_fast_counterexample:
  "str ''xx'' \<notin> FIELD_CODES
   \<and> convert_json_to_txt sample_env no_files [str ''missing.json''] (str ''xx'') (str ''tnt'')
       = (Inl (FileNotFoundError [str ''missing.json'']), no_files)
   \<and> \<not> is_UnknownFieldCode (FileNotFoundError [str ''missing.json''])"
  by (simp add: convert_json_to_txt_def no_files_def FIELD_CODES_def str_def)

section \<open>Claims about the conversion from text to JSON\<close>

text \<open>A run that returns has written the records of the line pairs, and nothing else.\<close>

lemma convert_txt_to_json_writes:
  assumes "convert_txt_to_json env fs source_path target_path source_type target_type output_path
           = (Inr out, fs')"
  shows "\<exists>source_content target_content source_field target_field.
           fs source_path = Some source_content \<and> fs target_path = Some target_content
         \<and> map_of FIELD_MAPPING source_type = Some source_field
         \<and> map_of FIELD_MAPPING target_type = Some target_field
         \<and> length (read_lines source_content) = length (read_lines target_content)
         \<and> out = output_path
         \<and> fs' = fs(output_path \<mapsto> json_dump env
                      (JArr (build_data source_type target_type source_field target_field
                         (read_lines source_content) (read_lines target_content))))"
  using assms
  by (auto simp: convert_txt_to_json_def Let_def split: option.splits if_splits)

lemma map_of_dict_set: "map_of (dict_set d key v) = (map_of d)(key \<mapsto> v)"
  by (induction d key v rule: dict_set.induct) (auto simp: fun_eq_iff)

lemma keys_dict_set: "key \<in> fst ` set d \<Longrightarrow> map fst (dict_set d key v) = map fst d"
  by (induction d key v rule: dict_set.induct) auto

lemma build_entry_map:
  "map_of (build_entry source_type target_type source_field target_field (source_line, target_line))
   = (map_of empty_entry)
       (source_field \<mapsto> JStr (unformat_text source_line source_type),
        target_field \<mapsto> JStr (unformat_text target_line target_type))"
  by (simp add: build_entry_def Let_def map_of_dict_set)

lemma build_entry_keys:
  assumes "source_field \<in> fst ` set empty_entry" and "target_field \<in> fst ` set empty_entry"
  shows "map fst (build_entry source_type target_type source_field target_field pair)
         = map fst empty_entry"
proof -
  obtain source_line target_line where p: "pair = (source_line, target_line)"
    by (cases pair)
  define e1 where
    "e1 = dict_set empty_entry source_field (JStr (unformat_text source_line source_type))"
  have k1: "map fst e1 = map fst empty_entry"
    unfolding e1_def using assms(1) by (rule keys_dict_set)
  from arg_cong [OF k1, of set] assms(2) have "target_field \<in> fst ` set e1" by simp
  then have "map fst (dict_set e1 target_field (JStr (unformat_text target_line target_type)))
             = map fst e1"
    by (rule keys_dict_set)
  with k1 show ?thesis by (simp add: p build_entry_def Let_def e1_def)
qed

text \<open>
  C4. When both type codes are field codes and the two input files differ in their number
  of lines, \<open>convert_txt_to_json\<close> fails with the \<open>ValueError\<close> of the mismatch and leaves
  the file system as it was: the output path is not written. The codes are resolved before
  the files are read, so with an unknown code the error is that of the unknown type
  instead, whatever the line counts are.
\<close>

theorem line_count_mismatch_fails:
  assumes "fs source_path = Some source_content"
      and "fs target_path = Some target_content"
      and "source_type \<in> FIELD_CODES" and "target_type \<in> FIELD_CODES"
      and "length (read_lines source_content) \<noteq> length (read_lines target_content)"
  shows "convert_txt_to_json env fs source_path target_path source_type target_type output_path
         = (Inl (LineCountMismatch (length (read_lines source_content))
                   (length (read_lines target_content))), fs)"
proof -
  from assms(3) obtain source_field where
    s: "map_of FIELD_MAPPING source_type = Some source_field"
    using FIELD_MAPPING_None[of source_type] by auto
  from assms(4) obtain target_field where
    t: "map_of FIELD_MAPPING target_type = Some target_field"
    using FIELD_MAPPING_None[of target_type] by auto
  from s t have "source_field \<noteq> []" and "target_field \<noteq> []"
    by (simp_all add: FIELD_MAPPING_Some)
  with assms(1,2,5) s t show ?thesis
    by (simp add: convert_txt_to_json_def Let_def)
qed

theorem line_count_mismatch_fails_witness:
  "sample_files [str ''corpus'', str ''two.txt''] = Some [97, SPACE, 98, NEWLINE, 99]
   \<and> sample_files [str ''corpus'', str ''three.txt''] = Some [120, NEWLINE, 121, NEWLINE, 122]
   \<and> str ''egy'' \<in> FIELD_CODES \<and> str ''tnt'' \<in> FIELD_CODES
   \<and> length (read_lines [97, SPACE, 98, NEWLINE, 99])
       \<noteq> length (read_lines [120, NEWLINE, 121, NEWLINE, 122])
   \<and> convert_txt_to_json sample_env sample_files
        [str ''corpus'', str ''two.txt''] [str ''corpus'', str ''three.txt'']
        (str ''egy'') (str ''tnt'') [str ''corpus'', str ''out.json'']
       = (Inl (LineCountMismatch 2 3), sample_files)"
proof -
  have a: "sample_files [str ''corpus'', str ''two.txt''] = Some [97, SPACE, 98, NEWLINE, 99]"
    and b: "sample_files [str ''corpus'', str ''three.txt'']
              = Some [120, NEWLINE, 121, NEWLINE, 122]"
    by (simp_all add: sample_files_def str_def)
  have c: "str ''egy'' \<in> FIELD_CODES" and d: "str ''tnt'' \<in> FIELD_CODES"
    by (simp_all add: FIELD_CODES_def)
  have m: "length (read_lines [97, SPACE, 98, NEWLINE, 99]) = 2"
    and n: "length (read_lines [120, NEWLINE, 121, NEWLINE, 122]) = 3"
    by (simp_all add: read_lines_def)
  then have e: "length (read_lines [97, SPACE, 98, NEWLINE, 99])
                 \<noteq> length (read_lines [120, NEWLINE, 121, NEWLINE, 122])" by simp
  from line_count_mismatch_fails
         [where fs = sample_files and source_path = "[str ''corpus'', str ''two.txt'']"
            and target_path = "[str ''corpus'', str ''three.txt'']" and env = sample_env
            and output_path = "[str ''corpus'', str ''out.json'']", OF a b c d e]
    a b c d e m n
  show ?thesis by simp
qed

text \<open>
  The same two files, of two and three lines, with the unknown source type \<open>xx\<close>: the run
  ends in the error of the unknown type, not in that of the mismatch.
\<close>

theorem line_count_mismatch_fails_counterexample:
  "sample_files [str ''corpus'', str ''two.txt''] = Some [97, SPACE, 98, NEWLINE, 99]
   \<and> sample_files [str ''corpus'', str ''three.txt''] = Some [120, NEWLINE, 121, NEWLINE, 122]
   \<and> length (read_lines [97, SPACE, 98, NEWLINE, 99]) = 2
   \<and> length (read_lines [120, NEWLINE, 121, NEWLINE, 122]) = 3
   \<and> convert_txt_to_json sample_env sample_files
        [str ''corpus'', str ''two.txt''] [str ''corpus'', str ''three.txt'']
        (str ''xx'') (str ''tnt'') [str ''corpus'', str ''out.json'']
       = (Inl (UnknownSourceType (str ''xx'')), sample_files)
   \<and> \<not> is_LineCountMismatch (UnknownSourceType (str ''xx''))"
  by (simp add: convert_txt_to_json_def sample_files_def read_lines_def rstrip_newline_def
        FIELD_MAPPING_def str_def)

text \<open>
  C6. When the two type codes resolve to different fields, the record built from a line
  pair is the empty record with exactly these two fields set: the source field holds the
  unformatted source line, the target field the unformatted target line, every other key
  (the metadata mapping among them) keeps its empty default, and no key is added. When
  both codes resolve to one field, as \<open>en\<close> and \<open>de\<close> do, the second assignment overwrites
  the first and the unformatted source line is not in the record.
\<close>

theorem built_entry_fields:
  assumes "map_of FIELD_MAPPING source_type = Some source_field"
      and "map_of FIELD_MAPPING target_type = Some target_field"
      and "source_field \<noteq> target_field"
  shows "map_of (build_entry source_type target_type source_field target_field
                   (source_line, target_line))
         = (map_of empty_entry)
             (source_field \<mapsto> JStr (unformat_text source_line source_type),
              target_field \<mapsto> JStr (unformat_text target_line target_type))
       \<and> map_of (build_entry source_type target_type source_field target_field
                   (source_line, target_line)) source_field
         = Some (JStr (unformat_text source_line source_type))
       \<and> map_of (build_entry source_type target_type source_field target_field
                   (source_line, target_line)) target_field
         = Some (JStr (unformat_text target_line target_type))
       \<and> map fst (build_entry source_type target_type source_field target_field
                   (source_line, target_line))
         = map fst empty_entry"
proof -
  from assms(1,2) have "source_field \<in> fst ` set empty_entry"
    and "target_field \<in> fst ` set empty_entry"
    by (simp_all add: FIELD_MAPPING_Some)
  then have "map fst (build_entry source_type target_type source_field target_field
                        (source_line, target_line)) = map fst empty_entry"
    by (rule build_entry_keys)
  with assms(3) show ?thesis by (simp add: build_entry_map)
qed

theorem built_entry_fields_witness:
  "map_of FIELD_MAPPING (str ''egy'') = Some (str ''source'')
   \<and> map_of FIELD_MAPPING (str ''tnt'') = Some (str ''transliteration'')
   \<and> str ''source'' \<noteq> str ''transliteration''
   \<and> unformat_text (str ''A1 B2 '') (str ''egy'') = str ''A1 B2''
   \<and> unformat_text (str ''n f r _ n b'') (str ''tnt'') = str ''nfr nb''
   \<and> map_of (build_entry (str ''egy'') (str ''tnt'') (str ''source'') (str ''transliteration'')
                (str ''A1 B2 '', str ''n f r _ n b'')) (str ''source'')
       = Some (JStr (str ''A1 B2''))
   \<and> map_of (build_entry (str ''egy'') (str ''tnt'') (str ''source'') (str ''transliteration'')
                (str ''A1 B2 '', str ''n f r _ n b'')) (str ''transliteration'')
       = Some (JStr (str ''nfr nb''))
   \<and> map_of (build_entry (str ''egy'') (str ''tnt'') (str ''source'') (str ''transliteration'')
                (str ''A1 B2 '', str ''n f r _ n b'')) (str ''metadata'')
       = Some (JObj empty_metadata)"
proof -
  have a: "map_of FIELD_MAPPING (str ''egy'') = Some (str ''source'')"
    and b: "map_of FIELD_MAPPING (str ''tnt'') = Some (str ''transliteration'')"
    by (simp_all add: FIELD_MAPPING_def str_def)
  have c: "str ''source'' \<noteq> str ''transliteration''" by (simp add: str_def)
  have u: "unformat_text (str ''A1 B2 '') (str ''egy'') = str ''A1 B2''"
    and v: "unformat_text (str ''n f r _ n b'') (str ''tnt'') = str ''nfr nb''"
    by (simp_all add: string_defs)
  have m: "map_of empty_entry (str ''metadata'') = Some (JObj empty_metadata)"
    by (simp add: empty_entry_def str_def)
  have d: "str ''metadata'' \<noteq> str ''source''" "str ''metadata'' \<noteq> str ''transliteration''"
    by (simp_all add: str_def)
  from built_entry_fields [OF a b c, of "str ''A1 B2 ''" "str ''n f r _ n b''"] a b c u v m d
  show ?thesis by simp
qed

text \<open>
  The types \<open>en\<close> and \<open>de\<close> both resolve to \<open>target\<close>: from the lines \<open>a\<close> and \<open>b\<close> the
  record keeps \<open>b\<close> there, and the unformatted source line \<open>a\<close> is lost.
\<close>

theorem built_entry_fields_counterexample:
  "map_of FIELD_MAPPING (str ''en'') = Some (str ''target'')
   \<and> map_of FIELD_MAPPING (str ''de'') = Some (str ''target'')
   \<and> unformat_text [97] (str ''en'') = [97]
   \<and> map_of (build_entry (str ''en'') (str ''de'') (str ''target'') (str ''target'') ([97], [98]))
        (str ''target'') = Some (JStr [98])
   \<and> map_of (build_entry (str ''en'') (str ''de'') (str ''target'') (str ''target'') ([97], [98]))
        (str ''target'') \<noteq> Some (JStr (unformat_text [97] (str ''en'')))"
  by (simp add: FIELD_MAPPING_def build_entry_def empty_entry_def string_defs)

text \<open>
  C9. Every record that the conversion builds has the top-level key \<open>flexCode\<close>, holding
  the empty string. The key is not among the six Record keys of the data model, and the
  record has seven top-level keys.
\<close>

theorem flexCode_key:
  assumes "map_of FIELD_MAPPING source_type = Some source_field"
      and "map_of FIELD_MAPPING target_type = Some target_field"
  shows "map_of (build_entry source_type target_type source_field target_field pair)
           (str ''flexCode'') = Some (JStr [])
       \<and> map fst (build_entry source_type target_type source_field target_field pair)
         = [str ''source'', str ''transliteration'', str ''target'', str ''lKey'',
            str ''wordClass'', str ''flexCode'', str ''metadata'']
       \<and> str ''flexCode'' \<notin> set RECORD_KEYS
       \<and> length (build_entry source_type target_type source_field target_field pair) = 7
       \<and> length RECORD_KEYS = 6"
proof -
  obtain source_line target_line where p: "pair = (source_line, target_line)"
    by (cases pair)
  from assms have k: "source_field \<in> fst ` set empty_entry"
    "target_field \<in> fst ` set empty_entry"
    and n: "source_field \<noteq> str ''flexCode''" "target_field \<noteq> str ''flexCode''"
    by (simp_all add: FIELD_MAPPING_Some)
  have keys: "map fst (build_entry source_type target_type source_field target_field pair)
         = [str ''source'', str ''transliteration'', str ''target'', str ''lKey'',
            str ''wordClass'', str ''flexCode'', str ''metadata'']"
    using build_entry_keys [OF k] by (simp add: empty_entry_def)
  from arg_cong [OF keys, of length]
  have len: "length (build_entry source_type target_type source_field target_field pair) = 7"
    by simp
  have "map_of empty_entry (str ''flexCode'') = Some (JStr [])"
    by (simp add: empty_entry_def str_def)
  with n have "map_of (build_entry source_type target_type source_field target_field pair)
           (str ''flexCode'') = Some (JStr [])"
    by (simp add: p build_entry_map)
  moreover have "str ''flexCode'' \<notin> set RECORD_KEYS" "length RECORD_KEYS = 6"
    by (simp_all add: RECORD_KEYS_def str_def)
  ultimately show ?thesis using keys len by simp
qed

theorem flexCode_key_witness:
  "map_of FIELD_MAPPING (str ''egy'') = Some (str ''source'')
   \<and> map_of FIELD_MAPPING (str ''en'') = Some (str ''target'')
   \<and> map_of (build_entry (str ''egy'') (str ''en'') (str ''source'') (str ''target'')
                (str ''A1'', str ''good'')) (str ''flexCode'') = Some (JStr [])
   \<and> length (build_entry (str ''egy'') (str ''en'') (str ''source'') (str ''target'')
                (str ''A1'', str ''good'')) = 7"
proof -
  have a: "map_of FIELD_MAPPING (str ''egy'') = Some (str ''source'')"
    and b: "map_of FIELD_MAPPING (str ''en'') = Some (str ''target'')"
    by (simp_all add: FIELD_MAPPING_def str_def)
  from flexCode_key [OF a b, of "(str ''A1'', str ''good'')"] a b show ?thesis by simp
qed

end
